theory Spec2Isabelle
  imports Main "HOL-Library.Sublist" "HOL-Library.AList"
begin

section \<open>Exceptions\<close>

text \<open>
  Modelled from the spec: the class \<open>GPUDetectExepction\<close> of \<open>gpustack.detectors.base\<close>
  is not among the sources; it is the distinguished GPU-detection failure, carrying a
  message, which is what \<open>str(e)\<close> gives.

  The collector distinguishes this one exception class (spelled as in the source) from
  every other \<open>Exception\<close>. \<open>AttributeError\<close> and \<open>TypeError\<close> are what
  Python raises on \<open>None.attr\<close> and on \<open>int + None\<close>; \<open>OtherException\<close> stands for whatever
  else a collaborator raises. All four are subclasses of \<open>Exception\<close>, so a handler
  \<open>except Exception\<close> catches each of them.
\<close>

datatype exn =
    GPUDetectExepction string
  | AttributeError
  | TypeError
  | OtherException string

section \<open>Schemas\<close>

text \<open>
  Modelled from the spec: the schema classes of \<open>gpustack.schemas.workers\<close>,
  \<open>gpustack.schemas.models\<close> and \<open>gpustack.policies.base\<close> are imported by
  \<open>collector.py\<close> but are not among the sources. The records below carry the fields the
  collector reads and writes. A field is optional wherever the collector itself guards
  against \<open>None\<close> (\<open>is not None\<close>, a truth test, \<open>or {}\<close>) or wraps its use in
  \<open>try\<close>; then Python's failure on \<open>None\<close> is a branch of the model.
\<close>

record CPUInfo =
  cpu_total :: "int option"

record SwapInfo =
  swap_total :: "int option"
  swap_used :: "int option"

record KernelInfo =
  kernel_name :: string
  kernel_release :: string

record UptimeInfo =
  uptime_value :: int
  boot_time :: string

record MemoryInfo =
  mem_total :: "int option"
  mem_used :: "int option"
  is_unified_memory :: bool
  allocated :: "int option"

record MountPoint =
  name :: string
  mount_point :: string
  total :: "int option"
  used :: "int option"
  free :: "int option"
  available :: "int option"

record OperatingSystemInfo =
  os_name :: string
  os_version :: string

record GPUDeviceInfo =
  index :: int
  dev_name :: string
  dev_memory :: "MemoryInfo option"

record RPCServer =
  pid :: int
  port :: int
  gpu_index :: int

record SystemInfo =
  si_cpu :: "CPUInfo option"
  si_memory :: "MemoryInfo option"
  si_swap :: "SwapInfo option"
  si_filesystem :: "MountPoint list option"
  si_os :: "OperatingSystemInfo option"
  si_kernel :: "KernelInfo option"
  si_uptime :: "UptimeInfo option"

text \<open>
  A Python \<open>dict\<close> that the collector iterates is an association list in insertion order;
  \<open>d[k] = v\<close> on it is \<open>AList.update\<close>.
\<close>

record WorkerStatus =
  cpu :: "CPUInfo option"
  memory :: "MemoryInfo option"
  swap :: "SwapInfo option"
  filesystem :: "MountPoint list option"
  os :: "OperatingSystemInfo option"
  kernel :: "KernelInfo option"
  uptime :: "UptimeInfo option"
  gpu_devices :: "GPUDeviceInfo list option"
  rpc_servers :: "(int \<times> RPCServer) list option"

datatype WorkerStateEnum = NOT_READY | READY

record Worker =
  w_name :: string
  w_hostname :: string
  w_ip :: string
  w_port :: int
  state :: WorkerStateEnum
  status :: WorkerStatus
  state_message :: "string option"
  worker_uuid :: "string option"

record ComputedResourceClaim =
  claim_ram :: "int option"
  claim_vram :: "(int \<times> int) list option"

record ModelInstanceSubordinateWorker =
  sub_worker_name :: "string option"
  sub_computed_resource_claim :: "ComputedResourceClaim option"

record DistributedServers =
  subordinate_workers :: "ModelInstanceSubordinateWorker list option"

record ModelInstance =
  worker_name :: "string option"
  computed_resource_claim :: "ComputedResourceClaim option"
  distributed_servers :: "DistributedServers option"

text \<open>The accumulator \<open>Allocated(ram=0, vram={})\<close>; its dictionary is only looked up.\<close>

record Allocated =
  ram :: int
  vram :: "int \<rightharpoonup> int"

section \<open>Collaborators and the collector object\<close>

text \<open>
  Objects are values here: the records a collaborator hands out are taken to be distinct
  objects, so that a write through one of them is not seen through another.

  A collaborator call either raises or returns, so its outcome is a value of
  \<open>exn + 'a\<close>. The collector object is the state \<open>__init__\<close> leaves behind:
  \<open>self_clientset\<close> is \<open>None\<close> when no client set was passed (the constructor's default),
  otherwise the outcome of \<open>model_instances.list()\<close>, with the \<open>items\<close> of the answer;
  \<open>self_worker_manager\<close> holds the UUID read at construction and the outcome of
  \<open>get_rpc_servers()\<close>.
\<close>

record ServerProcess =
  process_pid :: int
  process_port :: int

record WorkerManager =
  get_worker_uuid :: string
  get_rpc_servers :: "exn + (int \<times> ServerProcess) list"

record WorkerStatusCollector =
  self_worker_name :: string
  self_hostname :: string
  self_worker_ip :: string
  self_worker_port :: int
  self_clientset :: "(exn + ModelInstance list) option"
  self_worker_manager :: "WorkerManager option"
  detect_system_info :: "exn + SystemInfo"
  detect_gpus :: "exn + GPUDeviceInfo list"

section \<open>The collector's methods\<close>

subsection \<open>\<open>_inject_unified_memory\<close>\<close>

text \<open>
  The flag is read from \<open>status.gpu_devices[0].memory\<close> before \<open>status.memory\<close> is looked
  at and outside any handler: a first device without a memory record raises.
\<close>

definition first_device_unified_memory :: "WorkerStatus \<Rightarrow> exn + bool" where
  "first_device_unified_memory s =
     (case gpu_devices s of
        None \<Rightarrow> Inr False
      | Some [] \<Rightarrow> Inr False
      | Some (d # ds) \<Rightarrow>
          (case dev_memory d of
             None \<Rightarrow> Inl AttributeError
           | Some m \<Rightarrow> Inr (is_unified_memory m)))"

definition inject_unified_memory :: "WorkerStatus \<Rightarrow> exn + WorkerStatus" where
  "inject_unified_memory s =
     (case first_device_unified_memory s of
        Inl e \<Rightarrow> Inl e
      | Inr flag \<Rightarrow>
          Inr (case memory s of
                 None \<Rightarrow> s
               | Some m \<Rightarrow> s\<lparr>memory := Some (m\<lparr>is_unified_memory := flag\<rparr>)\<rparr>))"

subsection \<open>\<open>_inject_computed_filesystem_usage\<close>\<close>

text \<open>Python's \<open>needle in haystack\<close> on strings: a contiguous occurrence.\<close>

fun str_contains :: "string \<Rightarrow> string \<Rightarrow> bool" where
  "str_contains needle [] = (needle = [])"
| "str_contains needle (c # cs) = (prefix needle (c # cs) \<or> str_contains needle cs)"

text \<open>Python's \<open>a + b\<close> on byte counts: \<open>TypeError\<close> when either side is \<open>None\<close>.\<close>

fun add_count :: "int option \<Rightarrow> int option \<Rightarrow> exn + int option" where
  "add_count (Some a) (Some b) = Inr (Some (a + b))"
| "add_count _ _ = Inl TypeError"

fun sum_mountpoints :: "MountPoint \<Rightarrow> MountPoint list \<Rightarrow> exn + MountPoint" where
  "sum_mountpoints computed [] = Inr computed"
| "sum_mountpoints computed (mountpoint # rest) =
     (case add_count (total computed) (total mountpoint) of
        Inl e \<Rightarrow> Inl e
      | Inr t \<Rightarrow>
     (case add_count (used computed) (used mountpoint) of
        Inl e \<Rightarrow> Inl e
      | Inr u \<Rightarrow>
     (case add_count (free computed) (free mountpoint) of
        Inl e \<Rightarrow> Inl e
      | Inr f \<Rightarrow>
     (case add_count (available computed) (available mountpoint) of
        Inl e \<Rightarrow> Inl e
      | Inr a \<Rightarrow>
          sum_mountpoints
            (computed\<lparr>total := t, used := u, free := f, available := a\<rparr>) rest))))"

definition computed_zero :: MountPoint where
  "computed_zero =
     \<lparr>name = ''computed'', mount_point = ''/'',
      total = Some 0, used = Some 0, free = Some 0, available = Some 0\<rparr>"

definition inject_computed_filesystem_usage :: "WorkerStatus \<Rightarrow> WorkerStatus" where
  "inject_computed_filesystem_usage s =
     (case os s of
        None \<Rightarrow> s
      | Some osi \<Rightarrow>
          if \<not> str_contains ''Windows'' (os_name osi) then s
          else (case filesystem s of
                  None \<Rightarrow> s
                | Some fs \<Rightarrow>
                    (case sum_mountpoints computed_zero fs of
                       Inl e \<Rightarrow> s
                     | Inr computed \<Rightarrow> s\<lparr>filesystem := Some (fs @ [computed])\<rparr>)))"

subsection \<open>\<open>aggregate_computed_resource_claim_allocated\<close>\<close>

text \<open>\<open>allocated.vram.get(gpu_index) or 0\<close>: a missing key and a stored zero both give 0.\<close>

definition get_or_zero :: "(int \<rightharpoonup> int) \<Rightarrow> int \<Rightarrow> int" where
  "get_or_zero d k = (case d k of None \<Rightarrow> 0 | Some v \<Rightarrow> if v = 0 then 0 else v)"

fun aggregate_vram_items :: "(int \<rightharpoonup> int) \<Rightarrow> (int \<times> int) list \<Rightarrow> (int \<rightharpoonup> int)" where
  "aggregate_vram_items d [] = d"
| "aggregate_vram_items d ((k, v) # rest) =
     aggregate_vram_items (d(k \<mapsto> get_or_zero d k + v)) rest"

definition aggregate_computed_resource_claim_allocated ::
  "Allocated \<Rightarrow> ComputedResourceClaim option \<Rightarrow> Allocated" where
  "aggregate_computed_resource_claim_allocated a claim =
     (case claim of
        None \<Rightarrow> a
      | Some c \<Rightarrow>
          (let a1 = (case claim_ram c of
                       None \<Rightarrow> a
                     | Some r \<Rightarrow> if r \<noteq> 0 then a\<lparr>ram := ram a + r\<rparr> else a)
           in a1\<lparr>vram := aggregate_vram_items (vram a1)
                             (case claim_vram c of None \<Rightarrow> [] | Some items \<Rightarrow> items)\<rparr>))"

subsection \<open>\<open>_inject_allocated_resource\<close>\<close>

fun aggregate_subordinate_workers ::
  "string \<Rightarrow> Allocated \<Rightarrow> ModelInstanceSubordinateWorker list \<Rightarrow> Allocated" where
  "aggregate_subordinate_workers my_name a [] = a"
| "aggregate_subordinate_workers my_name a (subworker # rest) =
     (if sub_worker_name subworker \<noteq> Some my_name
      then aggregate_subordinate_workers my_name a rest
      else aggregate_subordinate_workers my_name
             (aggregate_computed_resource_claim_allocated a
                (sub_computed_resource_claim subworker)) rest)"

text \<open>
  One turn of the loop over \<open>model_instances.items\<close>. The guard
  \<open>distributed_servers and distributed_servers.subordinate_workers\<close> is a truth test:
  \<open>None\<close> and the empty list both skip the inner loop.
\<close>

definition aggregate_model_instance ::
  "string \<Rightarrow> Allocated \<Rightarrow> ModelInstance \<Rightarrow> Allocated" where
  "aggregate_model_instance my_name a model_instance =
     (let a1 = (case distributed_servers model_instance of
                  None \<Rightarrow> a
                | Some ds \<Rightarrow>
                    (case subordinate_workers ds of
                       None \<Rightarrow> a
                     | Some sws \<Rightarrow>
                         if sws = [] then a
                         else aggregate_subordinate_workers my_name a sws))
      in if worker_name model_instance \<noteq> Some my_name then a1
         else aggregate_computed_resource_claim_allocated a1
                (computed_resource_claim model_instance))"

fun aggregate_model_instances ::
  "string \<Rightarrow> Allocated \<Rightarrow> ModelInstance list \<Rightarrow> Allocated" where
  "aggregate_model_instances my_name a [] = a"
| "aggregate_model_instances my_name a (model_instance # rest) =
     aggregate_model_instances my_name
       (aggregate_model_instance my_name a model_instance) rest"

text \<open>
  The loop over \<open>enumerate(status.gpu_devices)\<close>. Assigning \<open>.memory.allocated\<close> on a
  device without a memory record raises; the devices written before it keep their
  new value, the rest are not reached. The result is the exception, if any, and the list
  as the loop left it.
\<close>

fun write_gpu_allocated ::
  "(int \<rightharpoonup> int) \<Rightarrow> GPUDeviceInfo list \<Rightarrow> exn option \<times> GPUDeviceInfo list" where
  "write_gpu_allocated d [] = (None, [])"
| "write_gpu_allocated d (device # rest) =
     (case dev_memory device of
        None \<Rightarrow> (Some AttributeError, device # rest)
      | Some m \<Rightarrow>
          (let v = (case d (index device) of Some x \<Rightarrow> x | None \<Rightarrow> 0);
               r = write_gpu_allocated d rest
           in (fst r, device\<lparr>dev_memory := Some (m\<lparr>allocated := Some v\<rparr>)\<rparr> # snd r)))"

text \<open>
  The body of the \<open>try\<close>: the exception that ended it, if any, and the status as it was
  at that moment. \<open>self._clientset\<close> being \<open>None\<close> raises on \<open>.model_instances\<close>.
\<close>

definition inject_allocated_resource_try ::
  "WorkerStatusCollector \<Rightarrow> WorkerStatus \<Rightarrow> exn option \<times> WorkerStatus" where
  "inject_allocated_resource_try c s =
     (case self_clientset c of
        None \<Rightarrow> (Some AttributeError, s)
      | Some (Inl e) \<Rightarrow> (Some e, s)
      | Some (Inr model_instances) \<Rightarrow>
          (let a = aggregate_model_instances (self_worker_name c)
                     \<lparr>ram = 0, vram = Map.empty\<rparr> model_instances;
               s1 = (case memory s of
                       None \<Rightarrow> s
                     | Some m \<Rightarrow> s\<lparr>memory := Some (m\<lparr>allocated := Some (ram a)\<rparr>)\<rparr>)
           in (case gpu_devices s1 of
                 None \<Rightarrow> (None, s1)
               | Some devices \<Rightarrow>
                   (let r = write_gpu_allocated (vram a) devices
                    in (fst r, s1\<lparr>gpu_devices := Some (snd r)\<rparr>)))))"

text \<open>The handler only logs, so the method leaves the status as the body left it.\<close>

definition inject_allocated_resource ::
  "WorkerStatusCollector \<Rightarrow> WorkerStatus \<Rightarrow> WorkerStatus" where
  "inject_allocated_resource c s = snd (inject_allocated_resource_try c s)"

subsection \<open>\<open>collect\<close>\<close>

text \<open>
  Modelled from the spec: the constructor \<open>WorkerStatus()\<close> is not among the sources; a
  fresh status has every field unset, absence meaning "not detected".
\<close>

definition empty_status :: WorkerStatus where
  "empty_status =
     \<lparr>cpu = None, memory = None, swap = None, filesystem = None, os = None,
      kernel = None, uptime = None, gpu_devices = None, rpc_servers = None\<rparr>"

text \<open>Lines 65 to 75: any exception leaves the fresh status as it is.\<close>

definition system_info_step :: "WorkerStatusCollector \<Rightarrow> WorkerStatus \<Rightarrow> WorkerStatus" where
  "system_info_step c s =
     (case detect_system_info c of
        Inl e \<Rightarrow> s
      | Inr system_info \<Rightarrow>
          s\<lparr>cpu := si_cpu system_info, memory := si_memory system_info,
            swap := si_swap system_info, filesystem := si_filesystem system_info,
            os := si_os system_info, kernel := si_kernel system_info,
            uptime := si_uptime system_info\<rparr>)"

text \<open>Lines 77 to 84: the status and \<open>state_message\<close> after the GPU step.\<close>

definition gpu_step ::
  "WorkerStatusCollector \<Rightarrow> bool \<Rightarrow> WorkerStatus \<Rightarrow> WorkerStatus \<times> string option" where
  "gpu_step c initial s =
     (if \<not> initial then
        (case detect_gpus c of
           Inr devices \<Rightarrow> (s\<lparr>gpu_devices := Some devices\<rparr>, None)
         | Inl (GPUDetectExepction msg) \<Rightarrow> (s, Some msg)
         | Inl _ \<Rightarrow> (s, None))
      else (s, None))"

text \<open>Lines 89 to 96, outside any handler.\<close>

definition build_rpc_servers :: "(int \<times> ServerProcess) list \<Rightarrow> (int \<times> RPCServer) list" where
  "build_rpc_servers server_processes =
     foldl (\<lambda>rps_server (k, process).
              AList.update k
                \<lparr>pid = process_pid process, port = process_port process,
                 gpu_index = k\<rparr> rps_server)
       [] server_processes"

definition rpc_servers_step ::
  "WorkerStatusCollector \<Rightarrow> WorkerStatus \<Rightarrow> exn + WorkerStatus" where
  "rpc_servers_step c s =
     (case self_worker_manager c of
        None \<Rightarrow> Inr s
      | Some wm \<Rightarrow>
          (case get_rpc_servers wm of
             Inl e \<Rightarrow> Inl e
           | Inr server_processes \<Rightarrow>
               Inr (s\<lparr>rpc_servers := Some (build_rpc_servers server_processes)\<rparr>)))"

text \<open>\<open>initial or state_message\<close> is a truth test: the empty string counts as false.\<close>

definition compute_state :: "bool \<Rightarrow> string option \<Rightarrow> WorkerStateEnum" where
  "compute_state initial message =
     (if initial \<or> (case message of None \<Rightarrow> False | Some msg \<Rightarrow> msg \<noteq> [])
      then NOT_READY else READY)"

definition collect :: "WorkerStatusCollector \<Rightarrow> bool \<Rightarrow> exn + Worker" where
  "collect c initial =
     (let r = gpu_step c initial (system_info_step c empty_status)
      in (case inject_unified_memory (fst r) of
            Inl e \<Rightarrow> Inl e
          | Inr s1 \<Rightarrow>
              (case rpc_servers_step c
                      (inject_allocated_resource c (inject_computed_filesystem_usage s1)) of
                 Inl e \<Rightarrow> Inl e
               | Inr s2 \<Rightarrow>
                   Inr \<lparr>w_name = self_worker_name c, w_hostname = self_hostname c,
                        w_ip = self_worker_ip c, w_port = self_worker_port c,
                        state = compute_state initial (snd r), status = s2,
                        state_message = snd r,
                        worker_uuid = map_option get_worker_uuid (self_worker_manager c)\<rparr>)))"

section \<open>Definitions used to state the properties\<close>

subsection \<open>When \<open>collect\<close> returns\<close>

text \<open>
  The two places where \<open>collect\<close> can raise: the process manager's answer, and the first
  detected device's memory record (only looked at when detection ran and returned a
  non-empty list).
\<close>

definition rpc_servers_ok :: "WorkerStatusCollector \<Rightarrow> bool" where
  "rpc_servers_ok c =
     (case self_worker_manager c of
        None \<Rightarrow> True
      | Some wm \<Rightarrow> (case get_rpc_servers wm of Inl e \<Rightarrow> False | Inr sp \<Rightarrow> True))"

definition first_device_ok :: "WorkerStatusCollector \<Rightarrow> bool \<Rightarrow> bool" where
  "first_device_ok c initial =
     (if initial then True
      else (case detect_gpus c of
              Inl e \<Rightarrow> True
            | Inr [] \<Rightarrow> True
            | Inr (d # ds) \<Rightarrow> dev_memory d \<noteq> None))"

text \<open>The message of a distinguished GPU-detection failure, when detection ran.\<close>

definition gpu_failure_message :: "WorkerStatusCollector \<Rightarrow> bool \<Rightarrow> string option" where
  "gpu_failure_message c initial =
     (if initial then None
      else (case detect_gpus c of
              Inl (GPUDetectExepction msg) \<Rightarrow> Some msg
            | _ \<Rightarrow> None))"

subsection \<open>Forgetting the uptime\<close>




subsection \<open>Forgetting the allocated fields\<close>

definition clear_memory_allocated :: "MemoryInfo \<Rightarrow> MemoryInfo" where
  "clear_memory_allocated m = m\<lparr>allocated := None\<rparr>"

definition clear_device_allocated :: "GPUDeviceInfo \<Rightarrow> GPUDeviceInfo" where
  "clear_device_allocated d =
     d\<lparr>dev_memory := map_option clear_memory_allocated (dev_memory d)\<rparr>"

definition clear_allocated :: "WorkerStatus \<Rightarrow> WorkerStatus" where
  "clear_allocated s =
     s\<lparr>memory := map_option clear_memory_allocated (memory s),
       gpu_devices := map_option (map clear_device_allocated) (gpu_devices s)\<rparr>"

definition device_allocated :: "GPUDeviceInfo \<Rightarrow> int option" where
  "device_allocated d = (case dev_memory d of None \<Rightarrow> None | Some m \<Rightarrow> allocated m)"

definition set_device_allocated :: "int \<Rightarrow> GPUDeviceInfo \<Rightarrow> GPUDeviceInfo" where
  "set_device_allocated v d =
     d\<lparr>dev_memory := map_option (\<lambda>m. m\<lparr>allocated := Some v\<rparr>) (dev_memory d)\<rparr>"

subsection \<open>The filesystem sums, as the specification words them\<close>

definition counts_present :: "MountPoint \<Rightarrow> bool" where
  "counts_present mp =
     (total mp \<noteq> None \<and> used mp \<noteq> None \<and> free mp \<noteq> None \<and> available mp \<noteq> None)"

definition spec_count_sum :: "(MountPoint \<Rightarrow> int option) \<Rightarrow> MountPoint list \<Rightarrow> int" where
  "spec_count_sum field fs = sum_list (map (\<lambda>mp. case field mp of None \<Rightarrow> 0 | Some n \<Rightarrow> n) fs)"

definition spec_computed_entry :: "MountPoint list \<Rightarrow> MountPoint" where
  "spec_computed_entry fs =
     \<lparr>name = ''computed'', mount_point = ''/'',
      total = Some (spec_count_sum total fs), used = Some (spec_count_sum used fs),
      free = Some (spec_count_sum free fs), available = Some (spec_count_sum available fs)\<rparr>"

subsection \<open>The allocated totals, as the specification words them\<close>

text \<open>
  A claim that is absent, or whose RAM scalar is absent, contributes nothing. The VRAM a
  claim holds for an index is what its mapping stores under that index; written as a sum
  over the entries with that key, which for a dictionary is at most one entry.
\<close>

definition claim_ram_of :: "ComputedResourceClaim option \<Rightarrow> int" where
  "claim_ram_of claim =
     (case claim of
        None \<Rightarrow> 0
      | Some c \<Rightarrow> (case claim_ram c of None \<Rightarrow> 0 | Some r \<Rightarrow> r))"

definition claim_items :: "ComputedResourceClaim option \<Rightarrow> (int \<times> int) list" where
  "claim_items claim =
     (case claim of
        None \<Rightarrow> []
      | Some c \<Rightarrow> (case claim_vram c of None \<Rightarrow> [] | Some items \<Rightarrow> items))"

definition items_at :: "int \<Rightarrow> (int \<times> int) list \<Rightarrow> int" where
  "items_at k items = sum_list (map snd (filter (\<lambda>p. fst p = k) items))"

definition claim_vram_of :: "int \<Rightarrow> ComputedResourceClaim option \<Rightarrow> int" where
  "claim_vram_of k claim = items_at k (claim_items claim)"

definition subordinates_of :: "ModelInstance \<Rightarrow> ModelInstanceSubordinateWorker list" where
  "subordinates_of model_instance =
     (case distributed_servers model_instance of
        None \<Rightarrow> []
      | Some ds \<Rightarrow> (case subordinate_workers ds of None \<Rightarrow> [] | Some sws \<Rightarrow> sws))"

text \<open>
  The claims one instance contributes for a worker: those of its subordinates that carry
  the worker's name, then its own claim when the worker is its primary owner. The two
  roles are independent, so one instance can contribute in both.
\<close>

definition subordinate_claims ::
  "string \<Rightarrow> ModelInstance \<Rightarrow> ComputedResourceClaim option list" where
  "subordinate_claims my_name model_instance =
     map sub_computed_resource_claim
       (filter (\<lambda>sw. sub_worker_name sw = Some my_name) (subordinates_of model_instance))"

definition primary_claims ::
  "string \<Rightarrow> ModelInstance \<Rightarrow> ComputedResourceClaim option list" where
  "primary_claims my_name model_instance =
     (if worker_name model_instance = Some my_name
      then [computed_resource_claim model_instance] else [])"

definition claims_on_worker ::
  "string \<Rightarrow> ModelInstance list \<Rightarrow> ComputedResourceClaim option list" where
  "claims_on_worker my_name model_instances =
     concat (map (\<lambda>mi. subordinate_claims my_name mi @ primary_claims my_name mi)
               model_instances)"

definition spec_allocated_ram :: "string \<Rightarrow> ModelInstance list \<Rightarrow> int" where
  "spec_allocated_ram my_name model_instances =
     sum_list (map claim_ram_of (claims_on_worker my_name model_instances))"

definition spec_allocated_vram :: "string \<Rightarrow> ModelInstance list \<Rightarrow> int \<Rightarrow> int" where
  "spec_allocated_vram my_name model_instances k =
     sum_list (map (claim_vram_of k) (claims_on_worker my_name model_instances))"

text \<open>The GPU indices for which some counted claim has an entry.\<close>

definition accumulated_indices :: "string \<Rightarrow> ModelInstance list \<Rightarrow> int set" where
  "accumulated_indices my_name model_instances =
     set (map fst (concat (map claim_items (claims_on_worker my_name model_instances))))"

section \<open>Example data\<close>

definition example_memory :: MemoryInfo where
  "example_memory =
     \<lparr>mem_total = Some 64, mem_used = Some 12, is_unified_memory = False, allocated = None\<rparr>"

definition example_gpu0 :: GPUDeviceInfo where
  "example_gpu0 =
     \<lparr>index = 0, dev_name = ''gpu-0'',
      dev_memory = Some \<lparr>mem_total = Some 24, mem_used = Some 2,
                         is_unified_memory = True, allocated = None\<rparr>\<rparr>"

definition example_gpu2 :: GPUDeviceInfo where
  "example_gpu2 =
     \<lparr>index = 2, dev_name = ''gpu-2'',
      dev_memory = Some \<lparr>mem_total = Some 24, mem_used = Some 3,
                         is_unified_memory = False, allocated = None\<rparr>\<rparr>"

definition example_filesystem :: "MountPoint list" where
  "example_filesystem =
     [\<lparr>name = ''C:'', mount_point = ''C:'', total = Some 100, used = Some 40,
       free = Some 60, available = Some 55\<rparr>,
      \<lparr>name = ''D:'', mount_point = ''D:'', total = Some 200, used = Some 50,
       free = Some 150, available = Some 140\<rparr>]"

definition example_system_info :: SystemInfo where
  "example_system_info =
     \<lparr>si_cpu = Some \<lparr>cpu_total = Some 8\<rparr>, si_memory = Some example_memory,
      si_swap = None, si_filesystem = Some example_filesystem,
      si_os = Some \<lparr>os_name = ''Microsoft Windows 11'', os_version = ''10.0''\<rparr>,
      si_kernel = None,
      si_uptime = Some \<lparr>uptime_value = 1000, boot_time = ''2024-01-01''\<rparr>\<rparr>"

text \<open>
  The first instance is owned by \<open>worker-A\<close>; the second is owned by \<open>worker-B\<close> and lists
  \<open>worker-A\<close> as a subordinate.
\<close>

definition example_instances :: "ModelInstance list" where
  "example_instances =
     [\<lparr>worker_name = Some ''worker-A'',
       computed_resource_claim = Some \<lparr>claim_ram = Some 10, claim_vram = Some [(0, 4)]\<rparr>,
       distributed_servers = None\<rparr>,
      \<lparr>worker_name = Some ''worker-B'',
       computed_resource_claim = Some \<lparr>claim_ram = Some 7, claim_vram = Some [(0, 9)]\<rparr>,
       distributed_servers = Some \<lparr>subordinate_workers = Some
         [\<lparr>sub_worker_name = Some ''worker-A'',
           sub_computed_resource_claim =
             Some \<lparr>claim_ram = Some 5, claim_vram = Some [(0, 1), (1, 2)]\<rparr>\<rparr>]\<rparr>\<rparr>]"

definition example_collector :: WorkerStatusCollector where
  "example_collector =
     \<lparr>self_worker_name = ''worker-A'', self_hostname = ''host-a'',
      self_worker_ip = ''10.0.0.1'', self_worker_port = 10150,
      self_clientset = Some (Inr example_instances),
      self_worker_manager = Some \<lparr>get_worker_uuid = ''uuid-1'',
        get_rpc_servers = Inr [(0, \<lparr>process_pid = 4242, process_port = 50051\<rparr>)]\<rparr>,
      detect_system_info = Inr example_system_info,
      detect_gpus = Inr [example_gpu0, example_gpu2]\<rparr>"

definition example_status :: WorkerStatus where
  "example_status =
     \<lparr>cpu = Some \<lparr>cpu_total = Some 8\<rparr>, memory = Some example_memory, swap = None,
      filesystem = Some example_filesystem,
      os = Some \<lparr>os_name = ''Microsoft Windows 11'', os_version = ''10.0''\<rparr>,
      kernel = None, uptime = Some \<lparr>uptime_value = 1000, boot_time = ''2024-01-01''\<rparr>,
      gpu_devices = Some [example_gpu0, example_gpu2], rpc_servers = None\<rparr>"


definition empty_message_collector :: WorkerStatusCollector where
  "empty_message_collector = example_collector\<lparr>detect_gpus := Inl (GPUDetectExepction [])\<rparr>"

definition broken_manager_collector :: WorkerStatusCollector where
  "broken_manager_collector =
     example_collector\<lparr>self_worker_manager :=
       Some \<lparr>get_worker_uuid = ''uuid-1'',
             get_rpc_servers = Inl (OtherException ''connection refused'')\<rparr>\<rparr>"

definition no_system_info_collector :: WorkerStatusCollector where
  "no_system_info_collector =
     example_collector\<lparr>detect_system_info := Inl (OtherException ''psutil failed'')\<rparr>"

definition no_clientset_collector :: WorkerStatusCollector where
  "no_clientset_collector = example_collector\<lparr>self_clientset := None\<rparr>"

text \<open>A device list whose second device has no memory record.\<close>

definition broken_device_status :: WorkerStatus where
  "broken_device_status =
     example_status\<lparr>gpu_devices :=
       Some [example_gpu0, \<lparr>index = 1, dev_name = ''gpu-1'', dev_memory = None\<rparr>,
             example_gpu2]\<rparr>"

definition empty_filesystem_status :: WorkerStatus where
  "empty_filesystem_status =
     empty_status\<lparr>os := Some \<lparr>os_name = ''Windows'', os_version = ''11''\<rparr>,
                  filesystem := Some []\<rparr>"

section \<open>Facts about the single steps\<close>

lemmas example_defs = example_collector_def example_instances_def example_system_info_def
  example_filesystem_def example_gpu0_def example_gpu2_def example_memory_def
  example_status_def

lemmas collect_defs = collect_def gpu_step_def system_info_step_def empty_status_def
  inject_unified_memory_def first_device_unified_memory_def inject_computed_filesystem_usage_def
  computed_zero_def inject_allocated_resource_def inject_allocated_resource_try_def
  aggregate_model_instance_def aggregate_computed_resource_claim_allocated_def get_or_zero_def
  rpc_servers_step_def build_rpc_servers_def compute_state_def

lemma str_contains_sublist: "str_contains needle haystack \<longleftrightarrow> sublist needle haystack"
  by (induction haystack) (auto simp: sublist_Cons_right)

lemma inject_unified_memory_fields:
  "inject_unified_memory s = Inr s' \<Longrightarrow>
     cpu s' = cpu s \<and> swap s' = swap s \<and> filesystem s' = filesystem s \<and> os s' = os s \<and>
     kernel s' = kernel s \<and> uptime s' = uptime s \<and> gpu_devices s' = gpu_devices s \<and>
     rpc_servers s' = rpc_servers s \<and> (memory s' = None \<longleftrightarrow> memory s = None)"
  by (auto simp: inject_unified_memory_def split: sum.splits option.splits)

lemma inject_computed_filesystem_usage_fields:
  "cpu (inject_computed_filesystem_usage s) = cpu s \<and>
   memory (inject_computed_filesystem_usage s) = memory s \<and>
   swap (inject_computed_filesystem_usage s) = swap s \<and>
   os (inject_computed_filesystem_usage s) = os s \<and>
   kernel (inject_computed_filesystem_usage s) = kernel s \<and>
   uptime (inject_computed_filesystem_usage s) = uptime s \<and>
   gpu_devices (inject_computed_filesystem_usage s) = gpu_devices s \<and>
   rpc_servers (inject_computed_filesystem_usage s) = rpc_servers s \<and>
   (filesystem s = None \<longrightarrow> filesystem (inject_computed_filesystem_usage s) = None)"
  by (auto simp: inject_computed_filesystem_usage_def split: sum.splits option.splits)

lemma inject_allocated_resource_fields:
  "cpu (inject_allocated_resource c s) = cpu s \<and>
   swap (inject_allocated_resource c s) = swap s \<and>
   filesystem (inject_allocated_resource c s) = filesystem s \<and>
   os (inject_allocated_resource c s) = os s \<and>
   kernel (inject_allocated_resource c s) = kernel s \<and>
   uptime (inject_allocated_resource c s) = uptime s \<and>
   rpc_servers (inject_allocated_resource c s) = rpc_servers s \<and>
   (memory (inject_allocated_resource c s) = None \<longleftrightarrow> memory s = None) \<and>
   (gpu_devices (inject_allocated_resource c s) = None \<longleftrightarrow> gpu_devices s = None)"
  by (auto simp: inject_allocated_resource_def inject_allocated_resource_try_def Let_def
           split: sum.splits option.splits)

lemma rpc_servers_step_fields:
  "rpc_servers_step c s = Inr s' \<Longrightarrow>
     cpu s' = cpu s \<and> memory s' = memory s \<and> swap s' = swap s \<and>
     filesystem s' = filesystem s \<and> os s' = os s \<and> kernel s' = kernel s \<and>
     uptime s' = uptime s \<and> gpu_devices s' = gpu_devices s"
  by (auto simp: rpc_servers_step_def split: sum.splits option.splits)

lemma rpc_servers_step_returns:
  "(\<exists>s'. rpc_servers_step c s = Inr s') \<longleftrightarrow> rpc_servers_ok c"
  by (auto simp: rpc_servers_step_def rpc_servers_ok_def split: sum.splits option.splits)

lemma gpu_step_message: "snd (gpu_step c initial s) = gpu_failure_message c initial"
  by (auto simp: gpu_step_def gpu_failure_message_def split: sum.splits exn.splits)

lemma gpu_step_devices:
  "gpu_devices (fst (gpu_step c initial s)) =
     (if initial then gpu_devices s
      else (case detect_gpus c of Inr devices \<Rightarrow> Some devices | Inl e \<Rightarrow> gpu_devices s))"
  by (auto simp: gpu_step_def split: sum.splits exn.splits)

lemma gpu_step_fields:
  "cpu (fst (gpu_step c initial s)) = cpu s \<and>
   memory (fst (gpu_step c initial s)) = memory s \<and>
   swap (fst (gpu_step c initial s)) = swap s \<and>
   filesystem (fst (gpu_step c initial s)) = filesystem s \<and>
   os (fst (gpu_step c initial s)) = os s \<and>
   kernel (fst (gpu_step c initial s)) = kernel s \<and>
   uptime (fst (gpu_step c initial s)) = uptime s \<and>
   rpc_servers (fst (gpu_step c initial s)) = rpc_servers s"
  by (auto simp: gpu_step_def split: sum.splits exn.splits)

lemma inject_unified_memory_returns:
  "(\<exists>s'. inject_unified_memory s = Inr s') \<longleftrightarrow>
     (case gpu_devices s of Some (d # ds) \<Rightarrow> dev_memory d \<noteq> None | _ \<Rightarrow> True)"
  by (auto simp: inject_unified_memory_def first_device_unified_memory_def
           split: sum.splits option.splits list.splits)

section \<open>Facts about \<open>collect\<close>\<close>

text \<open>
  \<open>collect\<close> returns exactly when neither unguarded step raises; what the detector and
  the client set do has no part in it beyond the first device's memory record.
\<close>

lemma collect_returns_iff:
  "(\<exists>w. collect c initial = Inr w) \<longleftrightarrow> rpc_servers_ok c \<and> first_device_ok c initial"
proof -
  let ?s = "fst (gpu_step c initial (system_info_step c empty_status))"
  have a: "(\<exists>s'. inject_unified_memory ?s = Inr s') \<longleftrightarrow> first_device_ok c initial"
    unfolding inject_unified_memory_returns gpu_step_devices
    by (auto simp: first_device_ok_def system_info_step_def empty_status_def
             split: sum.splits option.splits list.splits)
  show ?thesis
  proof (cases "inject_unified_memory ?s")
    case (Inl e)
    with a show ?thesis by (simp add: collect_def Let_def)
  next
    case (Inr s1)
    with a have f: "first_device_ok c initial" by auto
    show ?thesis
    proof (cases "rpc_servers_step c
                    (inject_allocated_resource c (inject_computed_filesystem_usage s1))")
      case (Inl e)
      then have "\<not> rpc_servers_ok c" using rpc_servers_step_returns by (metis Inl_Inr_False)
      with Inl Inr show ?thesis by (simp add: collect_def Let_def)
    next
      case r: (Inr s2)
      then have "rpc_servers_ok c" using rpc_servers_step_returns by blast
      with r Inr f show ?thesis by (simp add: collect_def Let_def)
    qed
  qed
qed

text \<open>What the code computes for the state: the truth test drops an empty message.\<close>

lemma collect_state:
  assumes "collect c initial = Inr w"
  shows "state_message w = gpu_failure_message c initial"
    and "state w = NOT_READY \<longleftrightarrow>
           initial \<or> (\<exists>msg. gpu_failure_message c initial = Some msg \<and> msg \<noteq> [])"
  using assms
  by (auto simp: collect_def Let_def compute_state_def gpu_step_message
           split: sum.splits option.splits if_splits)

lemma collect_status_fields:
  assumes "collect c initial = Inr w"
  shows "cpu (status w) = cpu (system_info_step c empty_status)"
    and "swap (status w) = swap (system_info_step c empty_status)"
    and "os (status w) = os (system_info_step c empty_status)"
    and "kernel (status w) = kernel (system_info_step c empty_status)"
    and "uptime (status w) = uptime (system_info_step c empty_status)"
    and "memory (status w) = None \<longleftrightarrow> memory (system_info_step c empty_status) = None"
    and "filesystem (system_info_step c empty_status) = None \<Longrightarrow> filesystem (status w) = None"
proof -
  let ?s0 = "fst (gpu_step c initial (system_info_step c empty_status))"
  from assms obtain s1 s2 where s1: "inject_unified_memory ?s0 = Inr s1"
    and s2: "rpc_servers_step c
               (inject_allocated_resource c (inject_computed_filesystem_usage s1)) = Inr s2"
    and ws: "status w = s2"
    by (auto simp: collect_def Let_def split: sum.splits)
  note a = inject_unified_memory_fields[OF s1] rpc_servers_step_fields[OF s2]
    inject_allocated_resource_fields[of c "inject_computed_filesystem_usage s1"]
    inject_computed_filesystem_usage_fields[of s1]
    gpu_step_fields[of c initial "system_info_step c empty_status"]
  show "cpu (status w) = cpu (system_info_step c empty_status)" using a ws by simp
  show "swap (status w) = swap (system_info_step c empty_status)" using a ws by simp
  show "os (status w) = os (system_info_step c empty_status)" using a ws by simp
  show "kernel (status w) = kernel (system_info_step c empty_status)" using a ws by simp
  show "uptime (status w) = uptime (system_info_step c empty_status)" using a ws by simp
  show "memory (status w) = None \<longleftrightarrow> memory (system_info_step c empty_status) = None"
    using a ws by simp
  show "filesystem (system_info_step c empty_status) = None \<Longrightarrow> filesystem (status w) = None"
    using a ws by simp
qed

lemma collect_gpu_devices_initial:
  assumes "collect c True = Inr w"
  shows "gpu_devices (status w) = None"
proof -
  let ?s0 = "fst (gpu_step c True (system_info_step c empty_status))"
  have g0: "gpu_devices ?s0 = None"
    by (simp add: gpu_step_def system_info_step_def empty_status_def split: sum.splits)
  from assms obtain s1 s2 where s1: "inject_unified_memory ?s0 = Inr s1"
    and s2: "rpc_servers_step c
               (inject_allocated_resource c (inject_computed_filesystem_usage s1)) = Inr s2"
    and ws: "status w = s2"
    by (auto simp: collect_def Let_def split: sum.splits)
  from inject_unified_memory_fields[OF s1] g0 have "gpu_devices s1 = None" by simp
  then have "gpu_devices (inject_allocated_resource c (inject_computed_filesystem_usage s1)) = None"
    using inject_allocated_resource_fields inject_computed_filesystem_usage_fields by metis
  with rpc_servers_step_fields[OF s2] ws show ?thesis by simp
qed

lemma steps_ignore_detect_gpus:
  "system_info_step (c\<lparr>detect_gpus := g\<rparr>) s = system_info_step c s"
  "gpu_step (c\<lparr>detect_gpus := g\<rparr>) True s = gpu_step c True s"
  "inject_allocated_resource (c\<lparr>detect_gpus := g\<rparr>) s = inject_allocated_resource c s"
  "rpc_servers_step (c\<lparr>detect_gpus := g\<rparr>) s = rpc_servers_step c s"
  by (simp_all add: gpu_step_def system_info_step_def rpc_servers_step_def
        inject_allocated_resource_def inject_allocated_resource_try_def
        cong: option.case_cong sum.case_cong)



section \<open>Facts about the filesystem sums\<close>

lemma sum_mountpoints_present:
  "list_all counts_present fs \<Longrightarrow>
   sum_mountpoints \<lparr>name = n, mount_point = p, total = Some t, used = Some u,
                     free = Some f, available = Some a\<rparr> fs =
     Inr \<lparr>name = n, mount_point = p, total = Some (t + spec_count_sum total fs),
          used = Some (u + spec_count_sum used fs), free = Some (f + spec_count_sum free fs),
          available = Some (a + spec_count_sum available fs)\<rparr>"
proof (induction fs arbitrary: t u f a)
  case Nil
  then show ?case by (simp add: spec_count_sum_def)
next
  case (Cons mp fs)
  from Cons.prems have cp: "counts_present mp" and rest: "list_all counts_present fs"
    by simp_all
  from cp obtain t' u' f' a' where mp: "total mp = Some t'" "used mp = Some u'"
      "free mp = Some f'" "available mp = Some a'"
    by (auto simp: counts_present_def)
  show ?case
    using Cons.IH[OF rest, of "t + t'" "u + u'" "f + f'" "a + a'"]
    by (simp add: mp spec_count_sum_def add.assoc)
qed

text \<open>One missing count anywhere in the list makes the summation raise.\<close>

lemma sum_mountpoints_absent:
  "\<not> list_all counts_present fs \<Longrightarrow>
   sum_mountpoints \<lparr>name = n, mount_point = p, total = Some t, used = Some u,
                     free = Some f, available = Some a\<rparr> fs = Inl TypeError"
proof (induction fs arbitrary: t u f a)
  case Nil
  then show ?case by simp
next
  case (Cons mp fs)
  show ?case
  proof (cases "counts_present mp")
    case True
    then obtain t' u' f' a' where mp: "total mp = Some t'" "used mp = Some u'"
      "free mp = Some f'" "available mp = Some a'"
      by (auto simp: counts_present_def)
    from True Cons.prems have "\<not> list_all counts_present fs" by simp
    from Cons.IH[OF this, of "t + t'" "u + u'" "f + f'" "a + a'"] show ?thesis
      by (simp add: mp)
  next
    case False
    then show ?thesis
      by (cases "total mp"; cases "used mp"; cases "free mp"; cases "available mp")
         (simp_all add: counts_present_def)
  qed
qed

section \<open>Facts about the accumulator\<close>

lemma get_or_zero_eq: "get_or_zero d k = (case d k of None \<Rightarrow> 0 | Some v \<Rightarrow> v)"
  by (simp add: get_or_zero_def split: option.splits)

lemma aggregate_vram_items_get:
  "get_or_zero (aggregate_vram_items d items) k = get_or_zero d k + items_at k items"
proof (induction items arbitrary: d)
  case Nil
  then show ?case by (simp add: items_at_def)
next
  case (Cons p items)
  obtain j v where p: "p = (j, v)" by (cases p)
  show ?case
    unfolding p aggregate_vram_items.simps Cons.IH
    by (simp add: items_at_def get_or_zero_eq)
qed

lemma aggregate_vram_items_dom:
  "dom (aggregate_vram_items d items) = dom d \<union> set (map fst items)"
proof (induction items arbitrary: d)
  case Nil
  then show ?case by simp
next
  case (Cons p items)
  obtain j v where p: "p = (j, v)" by (cases p)
  show ?case unfolding p aggregate_vram_items.simps Cons.IH by auto
qed

text \<open>For a dictionary, whose keys are distinct, the sum is the stored value.\<close>

lemma items_at_distinct:
  "distinct (map fst items) \<Longrightarrow>
   items_at k items = (case map_of items k of None \<Rightarrow> 0 | Some v \<Rightarrow> v)"
proof (induction items)
  case Nil
  then show ?case by (simp add: items_at_def)
next
  case (Cons p items)
  obtain j v where p: "p = (j, v)" by (cases p)
  from Cons.prems p have d: "distinct (map fst items)" and j: "j \<notin> fst ` set items" by auto
  from j have "map_of items j = None" by (simp add: map_of_eq_None_iff)
  with Cons.IH[OF d] show ?case
    by (auto simp: items_at_def p split: option.splits)
qed

lemma aggregate_claim_ram:
  "ram (aggregate_computed_resource_claim_allocated a claim) = ram a + claim_ram_of claim"
  by (simp add: aggregate_computed_resource_claim_allocated_def claim_ram_of_def Let_def
           split: option.splits)

lemma aggregate_claim_vram:
  "vram (aggregate_computed_resource_claim_allocated a claim) =
     aggregate_vram_items (vram a) (claim_items claim)"
  by (simp add: aggregate_computed_resource_claim_allocated_def claim_items_def Let_def
           split: option.splits)

lemma aggregate_subordinate_workers_foldl:
  "aggregate_subordinate_workers my_name a sws =
     foldl aggregate_computed_resource_claim_allocated a
       (map sub_computed_resource_claim (filter (\<lambda>sw. sub_worker_name sw = Some my_name) sws))"
  by (induction sws arbitrary: a) simp_all

lemma aggregate_model_instance_foldl:
  "aggregate_model_instance my_name a model_instance =
     foldl aggregate_computed_resource_claim_allocated a
       (subordinate_claims my_name model_instance @ primary_claims my_name model_instance)"
  by (simp add: aggregate_model_instance_def subordinate_claims_def primary_claims_def
        subordinates_of_def aggregate_subordinate_workers_foldl Let_def split: option.splits)

lemma aggregate_model_instances_foldl:
  "aggregate_model_instances my_name a model_instances =
     foldl aggregate_computed_resource_claim_allocated a (claims_on_worker my_name model_instances)"
  by (induction model_instances arbitrary: a)
     (simp_all add: claims_on_worker_def aggregate_model_instance_foldl)

lemma foldl_aggregate_ram:
  "ram (foldl aggregate_computed_resource_claim_allocated a claims) =
     ram a + sum_list (map claim_ram_of claims)"
  by (induction claims arbitrary: a) (simp_all add: aggregate_claim_ram)

lemma foldl_aggregate_vram:
  "get_or_zero (vram (foldl aggregate_computed_resource_claim_allocated a claims)) k =
     get_or_zero (vram a) k + sum_list (map (claim_vram_of k) claims)"
  by (induction claims arbitrary: a)
     (simp_all add: aggregate_claim_vram aggregate_vram_items_get claim_vram_of_def)

lemma foldl_aggregate_dom:
  "dom (vram (foldl aggregate_computed_resource_claim_allocated a claims)) =
     dom (vram a) \<union> set (map fst (concat (map claim_items claims)))"
  by (induction claims arbitrary: a)
     (auto simp: aggregate_claim_vram aggregate_vram_items_dom)

lemma accumulated_ram:
  "ram (aggregate_model_instances my_name \<lparr>ram = 0, vram = Map.empty\<rparr> model_instances) =
     spec_allocated_ram my_name model_instances"
  by (simp add: aggregate_model_instances_foldl foldl_aggregate_ram spec_allocated_ram_def)

lemma accumulated_vram:
  "get_or_zero (vram (aggregate_model_instances my_name \<lparr>ram = 0, vram = Map.empty\<rparr>
                        model_instances)) k =
     spec_allocated_vram my_name model_instances k"
  unfolding aggregate_model_instances_foldl foldl_aggregate_vram spec_allocated_vram_def
  by (simp add: get_or_zero_def)

lemma accumulated_dom:
  "dom (vram (aggregate_model_instances my_name \<lparr>ram = 0, vram = Map.empty\<rparr> model_instances)) =
     accumulated_indices my_name model_instances"
  by (simp add: aggregate_model_instances_foldl foldl_aggregate_dom accumulated_indices_def)

text \<open>
  The accumulator of the specification's worked example: 10 and 5 of RAM, 4 and 1 of VRAM
  on index 0, 2 on index 1; the claim of the instance owned by another worker stays out.
\<close>

lemma example_accumulator:
  "ram (aggregate_model_instances ''worker-A'' \<lparr>ram = 0, vram = Map.empty\<rparr> example_instances) = 15"
  "vram (aggregate_model_instances ''worker-A'' \<lparr>ram = 0, vram = Map.empty\<rparr> example_instances) 0
     = Some 5"
  "vram (aggregate_model_instances ''worker-A'' \<lparr>ram = 0, vram = Map.empty\<rparr> example_instances) 1
     = Some 2"
  "vram (aggregate_model_instances ''worker-A'' \<lparr>ram = 0, vram = Map.empty\<rparr> example_instances) 2
     = None"
  by (simp_all add: example_instances_def aggregate_model_instance_def
        aggregate_computed_resource_claim_allocated_def get_or_zero_def)

section \<open>Facts about the write loop\<close>

lemma write_gpu_allocated_all:
  "list_all (\<lambda>d. dev_memory d \<noteq> None) devices \<Longrightarrow>
   write_gpu_allocated acc devices =
     (None, map (\<lambda>d. set_device_allocated (get_or_zero acc (index d)) d) devices)"
  by (induction devices)
     (auto simp: set_device_allocated_def get_or_zero_eq Let_def split: option.splits)

text \<open>
  In general the loop writes the devices before the first one without a memory record and
  leaves the others as they were.
\<close>

lemma write_gpu_allocated_prefix:
  "snd (write_gpu_allocated acc devices) =
     map (\<lambda>d. set_device_allocated (get_or_zero acc (index d)) d)
       (takeWhile (\<lambda>d. dev_memory d \<noteq> None) devices) @
     dropWhile (\<lambda>d. dev_memory d \<noteq> None) devices"
  by (induction devices)
     (auto simp: set_device_allocated_def get_or_zero_eq Let_def split: option.splits)

lemma write_gpu_allocated_clear:
  "map clear_device_allocated (snd (write_gpu_allocated acc devices)) =
     map clear_device_allocated devices"
  by (induction devices)
     (auto simp: clear_device_allocated_def clear_memory_allocated_def Let_def
           split: option.splits)

lemma write_gpu_allocated_index:
  "map index (snd (write_gpu_allocated acc devices)) = map index devices"
  by (induction devices) (auto simp: Let_def split: option.splits)

text \<open>When listing the model instances fails, the step writes nothing.\<close>

lemma inject_allocated_resource_listing_failed:
  "self_clientset c = None \<or> (\<exists>e. self_clientset c = Some (Inl e)) \<Longrightarrow>
   inject_allocated_resource c s = s"
  by (auto simp: inject_allocated_resource_def inject_allocated_resource_try_def)

text \<open>
  A failure late in the step: the RAM and the first device are written, then the device
  without a memory record ends the loop, and the device after it is not reached.
\<close>

lemma late_failure_example:
  "fst (inject_allocated_resource_try example_collector broken_device_status) =
     Some AttributeError"
  "map_option allocated (memory (inject_allocated_resource example_collector broken_device_status))
     = Some (Some 15)"
  "map_option (map device_allocated)
     (gpu_devices (inject_allocated_resource example_collector broken_device_status)) =
     Some [Some 5, None, None]"
  by (simp_all add: broken_device_status_def example_defs inject_allocated_resource_def
        inject_allocated_resource_try_def aggregate_model_instance_def
        aggregate_computed_resource_claim_allocated_def get_or_zero_def device_allocated_def
        Let_def)

section \<open>The claims\<close>

subsection \<open>C1: the readiness decision\<close>

text \<open>
  C1. The returned state is \<open>NOT_READY\<close> if and only if \<open>initial\<close> is true or a
  distinguished GPU-detection failure occurred, and the captured message is attached
  whatever the state. On the code the second half holds (\<open>collect_state\<close>), the first does
  not: the state is decided by the truth value of the message, so a distinguished failure
  whose message is the empty string is captured and attached, and the worker is reported
  \<open>READY\<close>. The theorem evaluates \<open>collect\<close> at such an input.
\<close>

theorem empty_gpu_failure_message_reports_ready:
  "detect_gpus empty_message_collector = Inl (GPUDetectExepction []) \<and>
   map_sum id state (collect empty_message_collector False) = Inr READY \<and>
   map_sum id state_message (collect empty_message_collector False) = Inr (Some [])"
  by (simp add: empty_message_collector_def example_defs collect_defs Let_def)

subsection \<open>C2: when \<open>collect\<close> returns\<close>

text \<open>
  C2, as stated: whatever the collaborators do, \<open>collect\<close> returns a record. At this input
  the process manager's \<open>get_rpc_servers\<close> raises, and \<open>collect\<close> raises the same exception.
\<close>

theorem collect_raises_counterexample:
  "collect broken_manager_collector False = Inl (OtherException ''connection refused'')"
  by (simp add: broken_manager_collector_def example_defs collect_defs Let_def)

text \<open>
  C2, amended: \<open>collect\<close> returns a record exactly when the two steps outside a handler do
  not raise, that is when the process manager, if there is one, answers
  \<open>get_rpc_servers\<close>, and the first device of a detected, non-empty device list has a
  memory record. Failures of system-info detection, of GPU detection and of the client
  set never make it raise.
\<close>

theorem collect_returns_unless_unguarded_step_raises:
  "(\<exists>w. collect c initial = Inr w) \<longleftrightarrow> rpc_servers_ok c \<and> first_device_ok c initial"
  by (rule collect_returns_iff)

theorem collect_returns_unless_unguarded_step_raises_witness:
  "rpc_servers_ok no_system_info_collector \<and> first_device_ok no_system_info_collector False \<and>
   \<not> isl (collect no_system_info_collector False)"
proof -
  have h: "rpc_servers_ok no_system_info_collector \<and>
           first_device_ok no_system_info_collector False"
    by (simp add: rpc_servers_ok_def first_device_ok_def no_system_info_collector_def example_defs)
  with collect_returns_unless_unguarded_step_raises[of no_system_info_collector False]
  obtain w where "collect no_system_info_collector False = Inr w" by blast
  with h show ?thesis by simp
qed

subsection \<open>C3: the allocated RAM\<close>

text \<open>
  C3. Once the model instances are listed, the RAM written to \<open>status.memory.allocated\<close>
  is the sum over all instances of the RAM of every subordinate claim carrying this
  worker's name plus the RAM of the instance's own claim when this worker is its primary
  owner, absent claims and absent scalars counting for nothing; it is written only if a
  memory record exists, and nothing else of that record changes.
\<close>

theorem allocated_ram_total:
  assumes "self_clientset c = Some (Inr model_instances)"
  shows "memory (inject_allocated_resource c s) =
           map_option
             (\<lambda>m. m\<lparr>allocated := Some (spec_allocated_ram (self_worker_name c) model_instances)\<rparr>)
             (memory s)"
  using assms
  by (simp add: inject_allocated_resource_def inject_allocated_resource_try_def Let_def
        accumulated_ram split: option.splits)

theorem allocated_ram_total_witness:
  "self_clientset example_collector = Some (Inr example_instances) \<and>
   map_option allocated (memory (inject_allocated_resource example_collector example_status)) =
     Some (Some 15)"
proof -
  have h: "self_clientset example_collector = Some (Inr example_instances)"
    by (simp add: example_collector_def)
  have v: "spec_allocated_ram (self_worker_name example_collector) example_instances = 15"
    by (simp add: spec_allocated_ram_def claims_on_worker_def subordinate_claims_def
          primary_claims_def subordinates_of_def claim_ram_of_def example_collector_def
          example_instances_def)
  show ?thesis
    using h allocated_ram_total[OF h, of example_status]
    by (simp add: v example_status_def)
qed

subsection \<open>C4: the allocated VRAM of each device\<close>

text \<open>
  C4. Once the model instances are listed, and every device of the status has a memory
  record to write to, each device's \<open>memory.allocated\<close> is set to the sum of the VRAM
  claimed for its index over the same claims as for the RAM; it is never left unset, and
  for an index without any accumulated entry the value is exactly zero.
\<close>

theorem allocated_vram_per_device:
  assumes "self_clientset c = Some (Inr model_instances)"
    and "gpu_devices s = Some devices"
    and "list_all (\<lambda>d. dev_memory d \<noteq> None) devices"
  shows "gpu_devices (inject_allocated_resource c s) =
           Some (map (\<lambda>d. set_device_allocated
                            (spec_allocated_vram (self_worker_name c) model_instances (index d)) d)
                   devices) \<and>
         (\<forall>d \<in> set devices.
            device_allocated
              (set_device_allocated
                 (spec_allocated_vram (self_worker_name c) model_instances (index d)) d) =
              Some (spec_allocated_vram (self_worker_name c) model_instances (index d)) \<and>
            (index d \<notin> accumulated_indices (self_worker_name c) model_instances \<longrightarrow>
             device_allocated
               (set_device_allocated
                  (spec_allocated_vram (self_worker_name c) model_instances (index d)) d) =
               Some 0))"
proof (intro conjI ballI)
  let ?a = "aggregate_model_instances (self_worker_name c) \<lparr>ram = 0, vram = Map.empty\<rparr>
              model_instances"
  show "gpu_devices (inject_allocated_resource c s) =
           Some (map (\<lambda>d. set_device_allocated
                            (spec_allocated_vram (self_worker_name c) model_instances (index d)) d)
                   devices)"
    using assms
    by (simp add: inject_allocated_resource_def inject_allocated_resource_try_def Let_def
          write_gpu_allocated_all accumulated_vram split: option.splits)
  fix d assume d: "d \<in> set devices"
  with assms(3) have "dev_memory d \<noteq> None" by (simp add: list_all_iff)
  then show w: "device_allocated
              (set_device_allocated
                 (spec_allocated_vram (self_worker_name c) model_instances (index d)) d) =
              Some (spec_allocated_vram (self_worker_name c) model_instances (index d))"
    by (auto simp: device_allocated_def set_device_allocated_def)
  show "index d \<notin> accumulated_indices (self_worker_name c) model_instances \<longrightarrow>
        device_allocated
          (set_device_allocated
             (spec_allocated_vram (self_worker_name c) model_instances (index d)) d) =
          Some 0"
  proof
    assume "index d \<notin> accumulated_indices (self_worker_name c) model_instances"
    then have "vram ?a (index d) = None"
      using accumulated_dom[of "self_worker_name c" model_instances] by auto
    then have "get_or_zero (vram ?a) (index d) = 0" by (simp add: get_or_zero_eq)
    then have "spec_allocated_vram (self_worker_name c) model_instances (index d) = 0"
      by (simp add: accumulated_vram)
    with w show "device_allocated
          (set_device_allocated
             (spec_allocated_vram (self_worker_name c) model_instances (index d)) d) =
          Some 0"
      by simp
  qed
qed

theorem allocated_vram_per_device_witness:
  "self_clientset example_collector = Some (Inr example_instances) \<and>
   gpu_devices example_status = Some [example_gpu0, example_gpu2] \<and>
   list_all (\<lambda>d. dev_memory d \<noteq> None) [example_gpu0, example_gpu2] \<and>
   map_option (map device_allocated)
     (gpu_devices (inject_allocated_resource example_collector example_status)) =
     Some [Some 5, Some 0]"
proof -
  have h1: "self_clientset example_collector = Some (Inr example_instances)"
    by (simp add: example_collector_def)
  have h2: "gpu_devices example_status = Some [example_gpu0, example_gpu2]"
    by (simp add: example_status_def)
  have h3: "list_all (\<lambda>d. dev_memory d \<noteq> None) [example_gpu0, example_gpu2]"
    by (simp add: example_gpu0_def example_gpu2_def)
  have v: "spec_allocated_vram (self_worker_name example_collector) example_instances 0 = 5"
    "spec_allocated_vram (self_worker_name example_collector) example_instances 2 = 0"
    by (simp_all add: spec_allocated_vram_def claims_on_worker_def subordinate_claims_def
          primary_claims_def subordinates_of_def claim_vram_of_def claim_items_def items_at_def
          example_collector_def example_instances_def)
  have i: "index example_gpu0 = 0" "index example_gpu2 = 2"
    by (simp_all add: example_gpu0_def example_gpu2_def)
  have a: "device_allocated (set_device_allocated 5 example_gpu0) = Some 5"
    "device_allocated (set_device_allocated 0 example_gpu2) = Some 0"
    by (simp_all add: device_allocated_def set_device_allocated_def example_gpu0_def
          example_gpu2_def)
  from allocated_vram_per_device[OF h1 h2 h3]
  have "gpu_devices (inject_allocated_resource example_collector example_status) =
          Some [set_device_allocated 5 example_gpu0, set_device_allocated 0 example_gpu2]"
    by (simp add: v i)
  with h1 h2 h3 a show ?thesis by simp
qed

subsection \<open>C5: the computed filesystem entry\<close>

text \<open>
  C5, as stated: the entry is appended exactly when the OS name contains the substring and
  a non-empty filesystem list is present. At this input the OS name is \<open>Windows\<close> and the
  list is present and empty, and the entry is appended, with all four totals zero.
\<close>

theorem computed_entry_empty_list_counterexample:
  "map_option os_name (os empty_filesystem_status) = Some ''Windows'' \<and>
   str_contains ''Windows'' ''Windows'' \<and>
   filesystem empty_filesystem_status = Some [] \<and>
   filesystem (inject_computed_filesystem_usage empty_filesystem_status) =
     Some [\<lparr>name = ''computed'', mount_point = ''/'', total = Some 0, used = Some 0,
            free = Some 0, available = Some 0\<rparr>]"
  by (simp add: empty_filesystem_status_def empty_status_def
        inject_computed_filesystem_usage_def computed_zero_def)

text \<open>
  C5, amended: the entry named \<open>computed\<close>, mounted at \<open>/\<close>, is appended after the existing
  entries, which stay as they are, exactly when the OS name contains \<open>Windows\<close>, a
  filesystem list is present, empty or not, and every entry carries its four counts, so
  that the summation does not raise; its four totals are the sums of the corresponding
  counts. In every other case, in particular when the OS is absent or does not match or
  the list is absent, the status is unchanged.
\<close>

theorem computed_filesystem_entry:
  "inject_computed_filesystem_usage s =
     (case os s of
        None \<Rightarrow> s
      | Some osi \<Rightarrow>
          (case filesystem s of
             None \<Rightarrow> s
           | Some fs \<Rightarrow>
               if str_contains ''Windows'' (os_name osi) \<and> list_all counts_present fs
               then s\<lparr>filesystem := Some (fs @ [spec_computed_entry fs])\<rparr>
               else s))"
proof (cases "os s")
  case None
  then show ?thesis by (simp add: inject_computed_filesystem_usage_def)
next
  case (Some osi)
  show ?thesis
  proof (cases "filesystem s")
    case None
    with Some show ?thesis by (simp add: inject_computed_filesystem_usage_def)
  next
    case fs: (Some fs)
    show ?thesis
    proof (cases "list_all counts_present fs")
      case True
      from sum_mountpoints_present[OF True, of "''computed''" "''/''" 0 0 0 0]
      show ?thesis
        using Some fs True
        by (simp add: inject_computed_filesystem_usage_def computed_zero_def spec_computed_entry_def)
    next
      case False
      from sum_mountpoints_absent[OF False, of "''computed''" "''/''" 0 0 0 0]
      show ?thesis
        using Some fs False
        by (simp add: inject_computed_filesystem_usage_def computed_zero_def)
    qed
  qed
qed

theorem computed_filesystem_entry_witness:
  "filesystem (inject_computed_filesystem_usage example_status) =
     Some (example_filesystem @
           [\<lparr>name = ''computed'', mount_point = ''/'', total = Some 300, used = Some 90,
             free = Some 210, available = Some 195\<rparr>])"
proof -
  have c: "spec_computed_entry example_filesystem =
             \<lparr>name = ''computed'', mount_point = ''/'', total = Some 300, used = Some 90,
              free = Some 210, available = Some 195\<rparr>"
    by (simp add: spec_computed_entry_def spec_count_sum_def example_filesystem_def)
  have p: "list_all counts_present example_filesystem"
    by (simp add: counts_present_def example_filesystem_def)
  have o: "os example_status = Some \<lparr>os_name = ''Microsoft Windows 11'', os_version = ''10.0''\<rparr>"
    "filesystem example_status = Some example_filesystem"
    by (simp_all add: example_status_def)
  have w: "str_contains ''Windows'' ''Microsoft Windows 11''" by simp
  show ?thesis
    using computed_filesystem_entry[of example_status]
    by (simp add: o p w c)
qed

subsection \<open>C6: the unified-memory flag\<close>

text \<open>
  C6. When the status has a memory record, its unified-memory flag becomes the flag of the
  first device's memory record when the device list is non-empty, and false when the list
  is empty or absent; nothing else changes. When the status has no memory record, a
  returning call leaves the status as it was.
\<close>

theorem inject_unified_memory_flag:
  "(memory s = Some m \<and> gpu_devices s = Some (d # ds) \<and> dev_memory d = Some dm \<longrightarrow>
      inject_unified_memory s =
        Inr (s\<lparr>memory := Some (m\<lparr>is_unified_memory := is_unified_memory dm\<rparr>)\<rparr>)) \<and>
   (memory s = Some m \<and> (gpu_devices s = None \<or> gpu_devices s = Some []) \<longrightarrow>
      inject_unified_memory s = Inr (s\<lparr>memory := Some (m\<lparr>is_unified_memory := False\<rparr>)\<rparr>)) \<and>
   (memory s = None \<and> inject_unified_memory s = Inr s' \<longrightarrow> s' = s)"
  by (auto simp: inject_unified_memory_def first_device_unified_memory_def
           split: sum.splits option.splits list.splits)

theorem inject_unified_memory_flag_witness:
  "memory example_status = Some example_memory \<and>
   gpu_devices example_status = Some (example_gpu0 # [example_gpu2]) \<and>
   map_option is_unified_memory (dev_memory example_gpu0) = Some True \<and>
   inject_unified_memory example_status =
     Inr (example_status\<lparr>memory := Some (example_memory\<lparr>is_unified_memory := True\<rparr>)\<rparr>) \<and>
   inject_unified_memory (example_status\<lparr>gpu_devices := Some []\<rparr>) =
     Inr (example_status\<lparr>gpu_devices := Some [],
                        memory := Some (example_memory\<lparr>is_unified_memory := False\<rparr>)\<rparr>)"
proof -
  let ?dm = "\<lparr>mem_total = Some 24, mem_used = Some 2, is_unified_memory = True,
              allocated = None\<rparr>"
  have h: "memory example_status = Some example_memory"
    "gpu_devices example_status = Some (example_gpu0 # [example_gpu2])"
    "dev_memory example_gpu0 = Some ?dm"
    by (simp_all add: example_status_def example_gpu0_def)
  have e: "memory (example_status\<lparr>gpu_devices := Some []\<rparr>) = Some example_memory"
    "gpu_devices (example_status\<lparr>gpu_devices := Some []\<rparr>) = Some []"
    by (simp_all add: example_status_def)
  from inject_unified_memory_flag[of example_status example_memory example_gpu0
         "[example_gpu2]" ?dm] h
  have a: "inject_unified_memory example_status =
             Inr (example_status\<lparr>memory := Some (example_memory\<lparr>is_unified_memory := True\<rparr>)\<rparr>)"
    by simp
  from inject_unified_memory_flag[of "example_status\<lparr>gpu_devices := Some []\<rparr>" example_memory] e
  have b: "inject_unified_memory (example_status\<lparr>gpu_devices := Some []\<rparr>) =
             Inr (example_status\<lparr>gpu_devices := Some [],
                                memory := Some (example_memory\<lparr>is_unified_memory := False\<rparr>)\<rparr>)"
    by simp
  from h a b show ?thesis by simp
qed

subsection \<open>C7: the initial snapshot skips GPU detection\<close>

text \<open>
  C7. With \<open>initial\<close> true the outcome of \<open>collect\<close> is the same whatever the detector would
  answer to \<open>detect_gpus\<close>, a device list, a generic failure or the distinguished one, and
  a returned status has no GPU device list.
\<close>

theorem initial_skips_gpu_detection:
  "collect (c\<lparr>detect_gpus := g\<rparr>) True = collect c True \<and>
   (\<forall>w. collect c True = Inr w \<longrightarrow> gpu_devices (status w) = None)"
proof
  show "collect (c\<lparr>detect_gpus := g\<rparr>) True = collect c True"
    by (simp add: collect_def steps_ignore_detect_gpus cong: sum.case_cong)
  show "\<forall>w. collect c True = Inr w \<longrightarrow> gpu_devices (status w) = None"
    using collect_gpu_devices_initial by blast
qed

theorem initial_skips_gpu_detection_witness:
  "detect_gpus example_collector = Inr [example_gpu0, example_gpu2] \<and>
   collect (example_collector\<lparr>detect_gpus := Inl (GPUDetectExepction ''no driver'')\<rparr>) True =
     collect example_collector True \<and>
   map_sum id (gpu_devices \<circ> status) (collect example_collector True) = Inr None"
proof -
  have "rpc_servers_ok example_collector \<and> first_device_ok example_collector True"
    by (simp add: rpc_servers_ok_def first_device_ok_def example_collector_def)
  then obtain w where w: "collect example_collector True = Inr w"
    using collect_returns_iff by blast
  note t = initial_skips_gpu_detection[where c = example_collector
             and g = "Inl (GPUDetectExepction ''no driver'')"]
  from t w have "gpu_devices (status w) = None" by blast
  with w t show ?thesis by (simp add: example_collector_def)
qed

subsection \<open>C8: a system-info failure degrades silently\<close>

text \<open>
  C8. When system-info detection fails, whether the call returns is decided by the other
  steps alone, and a returned record has cpu, memory, swap, filesystem, os, kernel and
  uptime unset; its state message is the one of the GPU step, so none comes from this
  failure, and its state is \<open>READY\<close> when \<open>initial\<close> is false and no distinguished
  GPU-detection failure occurred.
\<close>

theorem system_info_failure_is_silent:
  assumes "detect_system_info c = Inl e"
  shows "((\<exists>w. collect c initial = Inr w) \<longleftrightarrow> rpc_servers_ok c \<and> first_device_ok c initial) \<and>
         (\<forall>w. collect c initial = Inr w \<longrightarrow>
            cpu (status w) = None \<and> memory (status w) = None \<and> swap (status w) = None \<and>
            filesystem (status w) = None \<and> os (status w) = None \<and> kernel (status w) = None \<and>
            uptime (status w) = None \<and>
            state_message w = gpu_failure_message c initial \<and>
            (\<not> initial \<and> gpu_failure_message c initial = None \<longrightarrow> state w = READY))"
proof (intro conjI allI impI)
  show "(\<exists>w. collect c initial = Inr w) \<longleftrightarrow> rpc_servers_ok c \<and> first_device_ok c initial"
    by (rule collect_returns_iff)
next
  fix w assume w: "collect c initial = Inr w"
  have s: "system_info_step c empty_status = empty_status"
    using assms by (simp add: system_info_step_def)
  note f = collect_status_fields[OF w, unfolded s]
  show "cpu (status w) = None" using f(1) by (simp add: empty_status_def)
  show "memory (status w) = None" using f(6) by (simp add: empty_status_def)
  show "swap (status w) = None" using f(2) by (simp add: empty_status_def)
  show "filesystem (status w) = None" using f(7) by (simp add: empty_status_def)
  show "os (status w) = None" using f(3) by (simp add: empty_status_def)
  show "kernel (status w) = None" using f(4) by (simp add: empty_status_def)
  show "uptime (status w) = None" using f(5) by (simp add: empty_status_def)
  show "state_message w = gpu_failure_message c initial" by (rule collect_state(1)[OF w])
  show "state w = READY" if "\<not> initial \<and> gpu_failure_message c initial = None"
    using collect_state(2)[OF w] that by (cases "state w") auto
qed

theorem system_info_failure_is_silent_witness:
  "detect_system_info no_system_info_collector = Inl (OtherException ''psutil failed'') \<and>
   map_sum id (memory \<circ> status) (collect no_system_info_collector False) = Inr None \<and>
   map_sum id (filesystem \<circ> status) (collect no_system_info_collector False) = Inr None \<and>
   map_sum id (uptime \<circ> status) (collect no_system_info_collector False) = Inr None \<and>
   map_sum id state_message (collect no_system_info_collector False) = Inr None \<and>
   map_sum id state (collect no_system_info_collector False) = Inr READY"
proof -
  have h: "detect_system_info no_system_info_collector = Inl (OtherException ''psutil failed'')"
    by (simp add: no_system_info_collector_def)
  have ok: "rpc_servers_ok no_system_info_collector \<and>
            first_device_ok no_system_info_collector False"
    by (simp add: rpc_servers_ok_def first_device_ok_def no_system_info_collector_def example_defs)
  have g: "gpu_failure_message no_system_info_collector False = None"
    by (simp add: gpu_failure_message_def no_system_info_collector_def example_collector_def)
  note t = system_info_failure_is_silent[OF h, of False]
  from t ok obtain w where w: "collect no_system_info_collector False = Inr w" by blast
  from t w g have "memory (status w) = None \<and> filesystem (status w) = None \<and>
      uptime (status w) = None \<and> state_message w = None \<and> state w = READY"
    by simp
  with h w show ?thesis by simp
qed

subsection \<open>C9: the outcome is a function of the collaborators' answers\<close>



subsection \<open>C10: what the allocated-resource step leaves alone\<close>

text \<open>
  C10. For every status and every collector, whether the step runs to its end or an
  exception ends it early, the status after \<open>_inject_allocated_resource\<close> differs from the
  one before at most in the \<open>allocated\<close> field of the memory record and of each device's
  memory record: cpu, swap, filesystem, os, kernel, uptime and the RPC servers are the
  same, and so are the devices, their order and their indices.
\<close>

theorem inject_allocated_resource_frame:
  "clear_allocated (inject_allocated_resource c s) = clear_allocated s \<and>
   cpu (inject_allocated_resource c s) = cpu s \<and>
   swap (inject_allocated_resource c s) = swap s \<and>
   filesystem (inject_allocated_resource c s) = filesystem s \<and>
   os (inject_allocated_resource c s) = os s \<and>
   kernel (inject_allocated_resource c s) = kernel s \<and>
   uptime (inject_allocated_resource c s) = uptime s \<and>
   rpc_servers (inject_allocated_resource c s) = rpc_servers s \<and>
   map_option (map index) (gpu_devices (inject_allocated_resource c s)) =
     map_option (map index) (gpu_devices s)"
proof -
  have "clear_allocated (inject_allocated_resource c s) = clear_allocated s"
    by (auto simp: inject_allocated_resource_def inject_allocated_resource_try_def
          clear_allocated_def Let_def write_gpu_allocated_clear clear_memory_allocated_def
        split: option.splits sum.splits)
  moreover have "map_option (map index) (gpu_devices (inject_allocated_resource c s)) =
      map_option (map index) (gpu_devices s)"
    by (auto simp: inject_allocated_resource_def inject_allocated_resource_try_def Let_def
          write_gpu_allocated_index split: option.splits sum.splits)
  ultimately show ?thesis
    using inject_allocated_resource_fields[of c s] by simp
qed

theorem inject_allocated_resource_frame_witness:
  "clear_allocated (inject_allocated_resource example_collector example_status) =
     clear_allocated example_status \<and>
   map_option (map index) (gpu_devices (inject_allocated_resource example_collector example_status)) =
     Some [0, 2] \<and>
   clear_allocated (inject_allocated_resource no_clientset_collector example_status) =
     clear_allocated example_status \<and>
   clear_allocated (inject_allocated_resource example_collector broken_device_status) =
     clear_allocated broken_device_status \<and>
   map_option (map index)
     (gpu_devices (inject_allocated_resource example_collector broken_device_status)) =
     Some [0, 1, 2]"
  using inject_allocated_resource_frame[of example_collector example_status]
    inject_allocated_resource_frame[of no_clientset_collector example_status]
    inject_allocated_resource_frame[of example_collector broken_device_status]
  by (simp add: example_status_def broken_device_status_def example_gpu0_def example_gpu2_def)

end
